theory Spec2Isabelle
  imports Main
begin

section \<open>Data model (the declarations of the chat client's types)\<close>

text \<open>
  The TypeScript interfaces \<^verbatim>\<open>ChatMessage\<close>, \<^verbatim>\<open>Session\<close>, \<^verbatim>\<open>ToolCall\<close> and
  \<^verbatim>\<open>PermissionRequest\<close>. An optional field \<^verbatim>\<open>f?: T\<close> is an \<open>option\<close>; a value of type
  \<^verbatim>\<open>unknown\<close> is kept as its JSON text. The field \<^verbatim>\<open>id\<close> is suffixed, since \<open>id\<close> is
  HOL's identity function.
\<close>

type_synonym json = string

datatype MessageRole = User | Assistant | Tool | System

datatype ToolStatus = Pending | Allowed | Denied | Cancelled

datatype SessionStatus = Disconnected | Connecting | Connected | Error

record ToolCall =
  title :: string
  description :: "string option"
  input :: "json option"
  name :: "string option"

record PermissionRequest =
  requestId :: string
  pr_sessionId :: string
  options :: "(string \<times> string option) list"
  pr_toolCall :: "ToolCall option"

text \<open>The \<^verbatim>\<open>toolCall\<close> and \<^verbatim>\<open>toolResult\<close> objects of a \<^verbatim>\<open>ChatMessage\<close>.\<close>

record MessageToolCall =
  tc_title :: string
  tc_input :: "json option"

record ToolResult =
  tr_status :: ToolStatus
  tr_output :: "string option"

record ChatMessage =
  id_msg :: string
  role :: MessageRole
  content :: string
  timestamp :: nat
  toolCall :: "MessageToolCall option"
  toolResult :: "ToolResult option"
  isThinking :: "bool option"
  stopReason :: "string option"

record ModelState =
  selected :: "string option"
  available :: "string list option"

record Session =
  id_session :: string
  name_session :: string
  wsUrl :: string
  token :: string
  messages :: "ChatMessage list"
  status :: SessionStatus
  agentInfo :: "(string \<times> string) option"
  sessionId :: "string option"
  createdAt :: nat
  models :: "ModelState option"
  cwd :: "string option"

text \<open>
  One element of the \<^verbatim>\<open>updates\<close> array of a \<^verbatim>\<open>session_update\<close> frame: its
  \<^verbatim>\<open>type\<close> tag and the two fields \<^verbatim>\<open>handleUpdates\<close> reads (as strings).
\<close>

record SessionUpdate =
  utype :: string
  udelta :: "string option"
  utext :: "string option"

text \<open>
  An inbound frame after \<^verbatim>\<open>JSON.parse\<close>, with the payload shape that \<^verbatim>\<open>handleMessage\<close>
  casts it to. \<open>OtherFrame\<close> is any tag the \<^verbatim>\<open>switch\<close> has no case for.
\<close>

datatype inframe =
    StatusFrame bool "(string \<times> string) option"
  | SessionCreatedFrame string
  | SessionUpdateFrame "SessionUpdate list option"
  | PermissionRequestFrame PermissionRequest
  | PromptCompleteFrame
  | ErrorFrame string
  | OtherFrame string

text \<open>The objects the client serialises and hands to \<^verbatim>\<open>ws.send\<close>.\<close>

datatype decision = Allow | Deny

datatype outframe =
    ConnectCmd
  | NewSessionCmd
  | PromptCmd string
  | CancelCmd
  | PermissionResponseCmd string decision
  | DisconnectCmd

section \<open>The browser's WebSocket objects\<close>

text \<open>
  A socket is an object with identity: the manager's map and the displayed permission
  request may hold the same one. Sockets therefore live in a store, addressed by a handle.
  \<open>ws_owner\<close> is the \<^verbatim>\<open>session.id\<close> that the four handlers installed by \<^verbatim>\<open>connect\<close>
  close over; \<open>outbox\<close> lists the frames handed to an open socket.
\<close>

datatype url = PlainUrl string | TokenUrl string string

record WebSocket =
  ws_owner :: string
  ws_url :: url
  readyState :: nat
  outbox :: "outframe list"

definition CONNECTING :: nat where "CONNECTING = 0"
definition OPEN :: nat where "OPEN = 1"
definition CLOSING :: nat where "CLOSING = 2"
definition CLOSED :: nat where "CLOSED = 3"

datatype error = InvalidStateError | SyntaxError

text \<open>
  The whole client state: the React state of \<^verbatim>\<open>App\<close> (\<open>sessions\<close>,
  \<open>pendingPermission\<close>), the three maps of \<^verbatim>\<open>WsManager\<close>, the socket store, and the
  environment read by \<^verbatim>\<open>Date.now()\<close>, \<^verbatim>\<open>Math.random()\<close> and the URL parser of
  \<^verbatim>\<open>new WebSocket\<close>: the n-th call of each returns the n-th value of its oracle.
\<close>

record world =
  sessions :: "Session list"
  pendingPermission :: "(PermissionRequest \<times> nat) option"
  sockets :: "string \<rightharpoonup> nat"
  thinkingIds :: "string \<rightharpoonup> string"
  streamingIds :: "string \<rightharpoonup> string"
  heap :: "nat \<Rightarrow> WebSocket"
  nextSocket :: nat
  dateNow :: "nat \<Rightarrow> nat"
  clockCalls :: nat
  mathRandom :: "nat \<Rightarrow> string"
  randomCalls :: nat
  urlParses :: "url \<Rightarrow> bool"

section \<open>Identifiers\<close>

definition digit36 :: "nat \<Rightarrow> char" where
  "digit36 d = ''0123456789abcdefghijklmnopqrstuvwxyz'' ! d"

text \<open>\<^verbatim>\<open>n.toString(36)\<close> for a non-negative integer.\<close>

function toString36 :: "nat \<Rightarrow> string" where
  "toString36 n =
     (if n < 36 then [digit36 n] else toString36 (n div 36) @ [digit36 (n mod 36)])"
  by pat_completeness auto
termination
  by (relation "measure (\<lambda>n. n)") auto

declare toString36.simps [simp del]

definition Date_now :: "world \<Rightarrow> nat \<times> world" where
  "Date_now w = (dateNow w (clockCalls w), w\<lparr>clockCalls := Suc (clockCalls w)\<rparr>)"

text \<open>
  \<^verbatim>\<open>Date.now().toString(36) + Math.random().toString(36).slice(2, 7)\<close>; the oracle
  \<open>mathRandom\<close> gives the base-36 text of the random number.
\<close>

definition makeId :: "world \<Rightarrow> string \<times> world" where
  "makeId w =
     (let (now, w1) = Date_now w;
          r = mathRandom w1 (randomCalls w1);
          w2 = w1\<lparr>randomCalls := Suc (randomCalls w1)\<rparr>
      in (toString36 now @ take 5 (drop 2 r), w2))"

section \<open>The React state setters of \<^verbatim>\<open>App\<close>\<close>

text \<open>
  \<^verbatim>\<open>setSessions((prev) => prev.map(...))\<close>: every setter replaces the session list by its
  image; the updates are applied in the order they are issued.
\<close>

definition setSession :: "string \<Rightarrow> (Session \<Rightarrow> Session) \<Rightarrow> world \<Rightarrow> world" where
  "setSession i fn w =
     w\<lparr>sessions := map (\<lambda>s. if id_session s = i then fn s else s) (sessions w)\<rparr>"

definition addMessage :: "string \<Rightarrow> ChatMessage \<Rightarrow> world \<Rightarrow> world" where
  "addMessage i msg w =
     w\<lparr>sessions :=
         map (\<lambda>s. if id_session s = i then s\<lparr>messages := messages s @ [msg]\<rparr> else s)
           (sessions w)\<rparr>"

definition showPermission :: "PermissionRequest \<Rightarrow> nat \<Rightarrow> world \<Rightarrow> world" where
  "showPermission req ws w = w\<lparr>pendingPermission := Some (req, ws)\<rparr>"

section \<open>The WebSocket interface\<close>

text \<open>
  A call either returns a value or raises; either way it leaves a state behind. An
  \<open>outcome\<close> is the pair of both.
\<close>

type_synonym 'a outcome = "(error + 'a) \<times> world"

text \<open>
  \<^verbatim>\<open>ws.send\<close>: raises \<^verbatim>\<open>InvalidStateError\<close> while the socket is connecting, transmits
  while it is open, and discards the data without raising once it is closing or closed.
\<close>

definition ws_send :: "nat \<Rightarrow> outframe \<Rightarrow> world \<Rightarrow> unit outcome" where
  "ws_send ws frame w =
     (let sock = heap w ws in
      if readyState sock = CONNECTING then (Inl InvalidStateError, w)
      else if readyState sock = OPEN
      then (Inr (), w\<lparr>heap := (heap w)(ws := sock\<lparr>outbox := outbox sock @ [frame]\<rparr>)\<rparr>)
      else (Inr (), w))"

text \<open>\<^verbatim>\<open>ws.close()\<close>: starts the closing handshake unless the socket is closing or closed.\<close>

definition ws_close :: "nat \<Rightarrow> world \<Rightarrow> world" where
  "ws_close ws w =
     (let sock = heap w ws in
      if readyState sock \<le> OPEN
      then w\<lparr>heap := (heap w)(ws := sock\<lparr>readyState := CLOSING\<rparr>)\<rparr>
      else w)"

text \<open>
  \<^verbatim>\<open>new WebSocket(url)\<close> raises \<^verbatim>\<open>SyntaxError\<close> on a URL that does not parse; otherwise
  the new object is connecting. The owner is the session id its handlers close over.
\<close>

definition new_WebSocket :: "url \<Rightarrow> string \<Rightarrow> world \<Rightarrow> nat outcome" where
  "new_WebSocket u owner w =
     (if \<not> urlParses w u then (Inl SyntaxError, w)
      else
        let ws = nextSocket w;
            sock = \<lparr>ws_owner = owner, ws_url = u, readyState = CONNECTING, outbox = []\<rparr>
        in (Inr ws, w\<lparr>heap := (heap w)(ws := sock), nextSocket := Suc ws\<rparr>))"

section \<open>\<^verbatim>\<open>WsManager\<close>\<close>

text \<open>JavaScript truthiness of a \<^verbatim>\<open>string | undefined\<close>: defined and not empty.\<close>

definition truthy :: "string option \<Rightarrow> bool" where
  "truthy v = (case v of None \<Rightarrow> False | Some s \<Rightarrow> s \<noteq> [])"

text \<open>\<^verbatim>\<open>(update.delta as string) || (update.text as string) || ''\<close>\<close>

definition delta_of :: "SessionUpdate \<Rightarrow> string" where
  "delta_of update =
     (if truthy (udelta update) then the (udelta update)
      else if truthy (utext update) then the (utext update)
      else [])"

text \<open>
  The block that \<^verbatim>\<open>handleUpdates\<close> and the \<^verbatim>\<open>prompt_complete\<close> case share: if a thinking
  id is registered for the session, filter its message out and unregister it.
\<close>

definition removeThinking :: "string \<Rightarrow> world \<Rightarrow> world" where
  "removeThinking localId w =
     (let thinkId = thinkingIds w localId in
      if truthy thinkId
      then
        let w1 = setSession localId
                   (\<lambda>s. s\<lparr>messages := filter (\<lambda>m. id_msg m \<noteq> the thinkId) (messages s)\<rparr>) w
        in w1\<lparr>thinkingIds := (thinkingIds w1)(localId := None)\<rparr>
      else w)"

text \<open>The body of the \<^verbatim>\<open>for\<close> loop of \<^verbatim>\<open>handleUpdates\<close>.\<close>

definition handleUpdate :: "string \<Rightarrow> SessionUpdate \<Rightarrow> world \<Rightarrow> world" where
  "handleUpdate localId update w =
     (let t = utype update in
      if t = ''text_delta'' \<or> t = ''text'' then
        let delta = delta_of update in
        if delta = [] then w
        else
          let w1 = removeThinking localId w;
              streamId = streamingIds w1 localId
          in if truthy streamId
             then setSession localId
                    (\<lambda>s. s\<lparr>messages :=
                            map (\<lambda>m. if id_msg m = the streamId
                                      then m\<lparr>content := content m @ delta\<rparr> else m)
                              (messages s)\<rparr>) w1
             else
               let (i, w2) = makeId w1;
                   w3 = w2\<lparr>streamingIds := (streamingIds w2)(localId \<mapsto> i)\<rparr>;
                   (now, w4) = Date_now w3
               in addMessage localId
                    \<lparr>id_msg = i, role = Assistant, content = delta, timestamp = now,
                     toolCall = None, toolResult = None, isThinking = None,
                     stopReason = None\<rparr> w4
      else if t = ''thinking_start'' then
        if thinkingIds w localId = None then
          let (i, w1) = makeId w;
              w2 = w1\<lparr>thinkingIds := (thinkingIds w1)(localId \<mapsto> i)\<rparr>;
              (now, w3) = Date_now w2
          in addMessage localId
               \<lparr>id_msg = i, role = Assistant, content = [], timestamp = now,
                toolCall = None, toolResult = None, isThinking = Some True,
                stopReason = None\<rparr> w3
        else w
      else w)"

fun handleUpdates :: "string \<Rightarrow> SessionUpdate list \<Rightarrow> world \<Rightarrow> world" where
  "handleUpdates localId [] w = w"
| "handleUpdates localId (update # updates) w =
     handleUpdates localId updates (handleUpdate localId update w)"

text \<open>\<^verbatim>\<open>p.toolCall?.title || fallback\<close>\<close>

definition title_or :: "ToolCall option \<Rightarrow> string \<Rightarrow> string" where
  "title_or tc fallback =
     (if truthy (map_option title tc) then title (the tc) else fallback)"

definition handleMessage :: "string \<Rightarrow> inframe \<Rightarrow> nat \<Rightarrow> world \<Rightarrow> unit outcome" where
  "handleMessage localId msg ws w =
     (case msg of
        StatusFrame connected info \<Rightarrow>
          if connected
          then ws_send ws NewSessionCmd
                 (setSession localId (\<lambda>s. s\<lparr>status := Connected, agentInfo := info\<rparr>) w)
          else (Inr (),
                setSession localId (\<lambda>s. s\<lparr>status := Disconnected, sessionId := None\<rparr>) w)
      | SessionCreatedFrame sid \<Rightarrow>
          (Inr (), setSession localId (\<lambda>s. s\<lparr>sessionId := Some sid\<rparr>) w)
      | SessionUpdateFrame updates \<Rightarrow>
          (Inr (), handleUpdates localId (case updates of None \<Rightarrow> [] | Some us \<Rightarrow> us) w)
      | PermissionRequestFrame p \<Rightarrow>
          let w1 = showPermission p ws w;
              (i, w2) = makeId w1;
              (now, w3) = Date_now w2
          in (Inr (),
              addMessage localId
                \<lparr>id_msg = i, role = Tool, content = title_or (pr_toolCall p) ''Tool call'',
                 timestamp = now,
                 toolCall = Some \<lparr>tc_title = title_or (pr_toolCall p) ''Permission Required'',
                                  tc_input = Option.bind (pr_toolCall p) input\<rparr>,
                 toolResult = Some \<lparr>tr_status = Pending, tr_output = None\<rparr>,
                 isThinking = None, stopReason = None\<rparr> w3)
      | PromptCompleteFrame \<Rightarrow>
          let w1 = removeThinking localId w
          in (Inr (), w1\<lparr>streamingIds := (streamingIds w1)(localId := None)\<rparr>)
      | ErrorFrame message \<Rightarrow>
          let (i, w1) = makeId w;
              (now, w2) = Date_now w1
          in (Inr (),
              addMessage localId
                \<lparr>id_msg = i, role = System, content = ''Error: '' @ message,
                 timestamp = now, toolCall = None, toolResult = None, isThinking = None,
                 stopReason = None\<rparr> w2)
      | OtherFrame t \<Rightarrow> (Inr (), w))"

text \<open>
  The four handlers that \<^verbatim>\<open>connect\<close> installs on a socket. \<^verbatim>\<open>onmessage\<close> receives the
  frame as parsed (\<open>None\<close> when \<^verbatim>\<open>JSON.parse\<close> raises) and catches whatever
  \<^verbatim>\<open>handleMessage\<close> raises.
\<close>

definition ws_onopen :: "nat \<Rightarrow> world \<Rightarrow> unit outcome" where
  "ws_onopen ws w = ws_send ws ConnectCmd w"

definition ws_onerror :: "nat \<Rightarrow> world \<Rightarrow> world" where
  "ws_onerror ws w = setSession (ws_owner (heap w ws)) (\<lambda>s. s\<lparr>status := Error\<rparr>) w"

definition ws_onclose :: "nat \<Rightarrow> world \<Rightarrow> world" where
  "ws_onclose ws w =
     (let owner = ws_owner (heap w ws);
          w1 = w\<lparr>sockets := (sockets w)(owner := None)\<rparr>
      in setSession owner (\<lambda>s. s\<lparr>status := Disconnected, sessionId := None\<rparr>) w1)"

definition ws_onmessage :: "nat \<Rightarrow> inframe option \<Rightarrow> world \<Rightarrow> world" where
  "ws_onmessage ws raw w =
     (case raw of
        None \<Rightarrow> w
      | Some msg \<Rightarrow> snd (handleMessage (ws_owner (heap w ws)) msg ws w))"

definition connect :: "Session \<Rightarrow> world \<Rightarrow> unit outcome" where
  "connect session w =
     (if (case sockets w (id_session session) of
            None \<Rightarrow> False
          | Some existing \<Rightarrow> readyState (heap w existing) \<le> OPEN)
      then (Inr (), w)
      else
        let w1 = setSession (id_session session) (\<lambda>s. s\<lparr>status := Connecting\<rparr>) w;
            u = (if token session \<noteq> []
                 then TokenUrl (wsUrl session) (token session)
                 else PlainUrl (wsUrl session))
        in case new_WebSocket u (id_session session) w1 of
             (Inl e, w2) \<Rightarrow> (Inl e, w2)
           | (Inr ws, w2) \<Rightarrow>
               (Inr (), w2\<lparr>sockets := (sockets w2)(id_session session \<mapsto> ws)\<rparr>))"

definition disconnect :: "string \<Rightarrow> world \<Rightarrow> world" where
  "disconnect localId w =
     (case sockets w localId of
        None \<Rightarrow> w
      | Some ws \<Rightarrow> ws_close ws (snd (ws_send ws DisconnectCmd w)))"

definition send :: "string \<Rightarrow> outframe \<Rightarrow> world \<Rightarrow> bool outcome" where
  "send localId data w =
     (case sockets w localId of
        None \<Rightarrow> (Inr False, w)
      | Some ws \<Rightarrow>
          if readyState (heap w ws) \<noteq> OPEN then (Inr False, w)
          else (case ws_send ws data w of
                  (Inl e, w1) \<Rightarrow> (Inl e, w1)
                | (Inr _, w1) \<Rightarrow> (Inr True, w1)))"

definition isOpen :: "string \<Rightarrow> world \<Rightarrow> bool" where
  "isOpen localId w =
     (case sockets w localId of
        None \<Rightarrow> False
      | Some ws \<Rightarrow> readyState (heap w ws) = OPEN)"

section \<open>The handlers of \<^verbatim>\<open>App\<close>\<close>

definition handleConnect :: "string \<Rightarrow> world \<Rightarrow> unit outcome" where
  "handleConnect i w =
     (case find (\<lambda>s. id_session s = i) (sessions w) of
        None \<Rightarrow> (Inr (), w)
      | Some session \<Rightarrow> connect session w)"

definition handleDisconnect :: "string \<Rightarrow> world \<Rightarrow> world" where
  "handleDisconnect i w = disconnect i w"

text \<open>
  The update that \<^verbatim>\<open>handlePermissionAllow\<close> maps over every message of every session:
  \<^verbatim>\<open>m.toolResult?.status === 'pending' && m.toolCall?.title === request.toolCall?.title\<close>.
\<close>

definition allowMessage :: "PermissionRequest \<Rightarrow> ChatMessage \<Rightarrow> ChatMessage" where
  "allowMessage request m =
     (if map_option tr_status (toolResult m) = Some Pending
         \<and> map_option tc_title (toolCall m) = map_option title (pr_toolCall request)
      then m\<lparr>toolResult := Some ((the (toolResult m))\<lparr>tr_status := Allowed\<rparr>)\<rparr>
      else m)"

text \<open>The one of \<^verbatim>\<open>handlePermissionDeny\<close>: \<^verbatim>\<open>m.toolResult?.status === 'pending'\<close>.\<close>

definition denyMessage :: "ChatMessage \<Rightarrow> ChatMessage" where
  "denyMessage m =
     (if map_option tr_status (toolResult m) = Some Pending
      then m\<lparr>toolResult := Some ((the (toolResult m))\<lparr>tr_status := Denied\<rparr>)\<rparr>
      else m)"

definition handlePermissionAllow :: "world \<Rightarrow> unit outcome" where
  "handlePermissionAllow w =
     (case pendingPermission w of
        None \<Rightarrow> (Inr (), w)
      | Some (request, ws) \<Rightarrow>
          (case ws_send ws (PermissionResponseCmd (requestId request) Allow) w of
             (Inl e, w1) \<Rightarrow> (Inl e, w1)
           | (Inr _, w1) \<Rightarrow>
               (Inr (),
                w1\<lparr>sessions :=
                     map (\<lambda>s. s\<lparr>messages := map (allowMessage request) (messages s)\<rparr>)
                       (sessions w1),
                   pendingPermission := None\<rparr>)))"

definition handlePermissionDeny :: "world \<Rightarrow> unit outcome" where
  "handlePermissionDeny w =
     (case pendingPermission w of
        None \<Rightarrow> (Inr (), w)
      | Some (request, ws) \<Rightarrow>
          (case ws_send ws (PermissionResponseCmd (requestId request) Deny) w of
             (Inl e, w1) \<Rightarrow> (Inl e, w1)
           | (Inr _, w1) \<Rightarrow>
               (Inr (),
                w1\<lparr>sessions :=
                     map (\<lambda>s. s\<lparr>messages := map denyMessage (messages s)\<rparr>) (sessions w1),
                   pendingPermission := None\<rparr>)))"

text \<open>
  \<^verbatim>\<open>loadSessions\<close>, run once when \<^verbatim>\<open>App\<close> starts. The argument is what \<^verbatim>\<open>JSON.parse\<close>
  makes of the stored item: \<open>None\<close> when there is no item, an empty one, or one that does
  not parse. Only the status is reset; messages and all other fields are kept.
\<close>

definition loadSessions :: "Session list option \<Rightarrow> Session list" where
  "loadSessions parsed =
     (case parsed of
        None \<Rightarrow> []
      | Some stored \<Rightarrow> map (\<lambda>s. s\<lparr>status := Disconnected\<rparr>) stored)"

section \<open>Events\<close>

text \<open>
  One event is handled to completion before the next. For a socket event the browser
  first moves the socket's \<^verbatim>\<open>readyState\<close> (open: \<open>OPEN\<close>; error and close: \<open>CLOSED\<close>)
  and then calls the handler; an exception that leaves a handler is reported and the
  state stays as the handler left it.
\<close>

datatype event =
    WsOpen nat
  | WsError nat
  | WsClose nat
  | WsMessage nat "inframe option"
  | ClickConnect string
  | ClickDisconnect string
  | ClickAllow
  | ClickDeny

definition set_readyState :: "nat \<Rightarrow> nat \<Rightarrow> world \<Rightarrow> world" where
  "set_readyState ws r w = w\<lparr>heap := (heap w)(ws := (heap w ws)\<lparr>readyState := r\<rparr>)\<rparr>"

fun step :: "world \<Rightarrow> event \<Rightarrow> world" where
  "step w (WsOpen ws) = snd (ws_onopen ws (set_readyState ws OPEN w))"
| "step w (WsError ws) = ws_onerror ws (set_readyState ws CLOSED w)"
| "step w (WsClose ws) = ws_onclose ws (set_readyState ws CLOSED w)"
| "step w (WsMessage ws raw) = ws_onmessage ws raw w"
| "step w (ClickConnect i) = snd (handleConnect i w)"
| "step w (ClickDisconnect i) = handleDisconnect i w"
| "step w ClickAllow = snd (handlePermissionAllow w)"
| "step w ClickDeny = snd (handlePermissionDeny w)"

definition run :: "world \<Rightarrow> event list \<Rightarrow> world" where
  "run w evs = foldl step w evs"

section \<open>Example states\<close>

text \<open>
  A client with one session, before any connection; the clock starts at 1000 and every
  random number reads \<^verbatim>\<open>0.abcdefgh\<close> in base 36.
\<close>

definition session0 :: Session where
  "session0 =
     \<lparr>id_session = ''s1'', name_session = ''Session 1'', wsUrl = ''ws://localhost:9315/ws'',
      token = [], messages = [], status = Disconnected, agentInfo = None,
      sessionId = None, createdAt = 0, models = None, cwd = None\<rparr>"

definition world0 :: world where
  "world0 =
     \<lparr>sessions = [session0], pendingPermission = None, sockets = Map.empty,
      thinkingIds = Map.empty, streamingIds = Map.empty,
      heap = (\<lambda>_. \<lparr>ws_owner = [], ws_url = PlainUrl [], readyState = CLOSED, outbox = []\<rparr>),
      nextSocket = 0, dateNow = (\<lambda>n. 1000 + n), clockCalls = 0,
      mathRandom = (\<lambda>n. ''0.abcdefgh''), randomCalls = 0, urlParses = (\<lambda>_. True)\<rparr>"

text \<open>The same client once the socket is open and the agent has reported its status.\<close>

definition world_connected :: world where
  "world_connected =
     run world0 [ClickConnect ''s1'', WsOpen 0, WsMessage 0 (Some (StatusFrame True None))]"

text \<open>
  Two permission requests of the agent, and the client after both have arrived, one after
  the other, on the open socket.
\<close>

definition request1 :: PermissionRequest where
  "request1 =
     \<lparr>requestId = ''r1'', pr_sessionId = ''srv-1'',
      options = [(''Allow'', None), (''Deny'', None)],
      pr_toolCall = Some \<lparr>title = ''Read file'', description = None, input = None,
                           name = None\<rparr>\<rparr>"

definition request2 :: PermissionRequest where
  "request2 =
     \<lparr>requestId = ''r2'', pr_sessionId = ''srv-1'',
      options = [(''Allow'', None), (''Deny'', None)],
      pr_toolCall = Some \<lparr>title = ''Write file'', description = None, input = None,
                           name = None\<rparr>\<rparr>"

definition world_two_requests :: world where
  "world_two_requests =
     run world_connected
       [WsMessage 0 (Some (PermissionRequestFrame request1)),
        WsMessage 0 (Some (PermissionRequestFrame request2))]"

text \<open>
  The transform that the streaming branch of \<^verbatim>\<open>handleUpdates\<close> passes to the session
  setter: append the delta to the content of the messages with the streaming id.
\<close>

definition appendTo :: "string \<Rightarrow> string \<Rightarrow> Session \<Rightarrow> Session" where
  "appendTo i d =
     (\<lambda>s. s\<lparr>messages :=
              map (\<lambda>m. if id_msg m = i then m\<lparr>content := content m @ d\<rparr> else m)
                (messages s)\<rparr>)"

text \<open>
  Two updates of the agent, and the client after a first text delta has arrived on the
  open socket.
\<close>

definition text_delta :: "string \<Rightarrow> SessionUpdate" where
  "text_delta d = \<lparr>utype = ''text_delta'', udelta = Some d, utext = None\<rparr>"

definition thinking_start :: SessionUpdate where
  "thinking_start = \<lparr>utype = ''thinking_start'', udelta = None, utext = None\<rparr>"

definition world_streaming :: world where
  "world_streaming =
     run world_connected [WsMessage 0 (Some (SessionUpdateFrame (Some [text_delta ''Hel''])))]"

text \<open>
  The client after a reload of the page in the middle of a turn: the stored session still
  holds the thinking placeholder of that turn, the manager is new and its maps are empty.
  Then the session is connected again.
\<close>

definition stored_session :: Session where
  "stored_session =
     session0\<lparr>status := Connected,
              messages := [\<lparr>id_msg = ''rsabcde'', role = Assistant, content = [],
                            timestamp = 1001, toolCall = None, toolResult = None,
                            isThinking = Some True, stopReason = None\<rparr>]\<rparr>"

definition world_reloaded :: world where
  "world_reloaded =
     run (world0\<lparr>sessions := loadSessions (Some [stored_session]),
                 dateNow := (\<lambda>n. 5000 + n)\<rparr>)
       [ClickConnect ''s1'', WsOpen 0, WsMessage 0 (Some (StatusFrame True None))]"

text \<open>A permission request whose tool call has an empty title, and the client after it.\<close>

definition request3 :: PermissionRequest where
  "request3 =
     \<lparr>requestId = ''r3'', pr_sessionId = ''srv-1'',
      options = [(''Allow'', None), (''Deny'', None)],
      pr_toolCall = Some \<lparr>title = [], description = None, input = None, name = None\<rparr>\<rparr>"

definition world_untitled_request :: world where
  "world_untitled_request =
     run world_connected [WsMessage 0 (Some (PermissionRequestFrame request3))]"


text \<open>The client once the agent has also created its session.\<close>

definition world_session_created :: world where
  "world_session_created =
     run world_connected [WsMessage 0 (Some (SessionCreatedFrame ''srv-1''))]"

section \<open>Sockets and their owners\<close>

text \<open>
  \<open>wf\<close>: every socket in the manager's map was created for the session it is filed
  under, and is an allocated one. \<open>same_sockets\<close>: two states with the same map, the same
  allocation mark and the same owner of every socket.
\<close>

definition wf :: "world \<Rightarrow> bool" where
  "wf w = (\<forall>i ws. sockets w i = Some ws \<longrightarrow> ws_owner (heap w ws) = i \<and> ws < nextSocket w)"

definition same_sockets :: "world \<Rightarrow> world \<Rightarrow> bool" where
  "same_sockets w w' =
     (sockets w' = sockets w \<and> nextSocket w' = nextSocket w
      \<and> (\<forall>ws. ws_owner (heap w' ws) = ws_owner (heap w ws)))"

section \<open>Facts for evaluation\<close>

lemmas state_defs = setSession_def addMessage_def showPermission_def

lemmas socket_defs = ws_send_def ws_close_def new_WebSocket_def set_readyState_def
  CONNECTING_def OPEN_def CLOSING_def CLOSED_def

lemmas handler_defs = ws_onopen_def ws_onerror_def ws_onclose_def ws_onmessage_def
  handleConnect_def handleDisconnect_def connect_def disconnect_def run_def

lemmas example_defs = session0_def world0_def world_connected_def

lemmas eval_defs = example_defs handler_defs state_defs socket_defs handleMessage_def
  makeId_def Date_now_def title_or_def truthy_def Let_def

lemma makeId_frame:
  "sessions (snd (makeId w)) = sessions w"
  "pendingPermission (snd (makeId w)) = pendingPermission w"
  "sockets (snd (makeId w)) = sockets w"
  "thinkingIds (snd (makeId w)) = thinkingIds w"
  "streamingIds (snd (makeId w)) = streamingIds w"
  "heap (snd (makeId w)) = heap w"
  "nextSocket (snd (makeId w)) = nextSocket w"
  by (simp_all add: makeId_def Date_now_def Let_def)

lemma Date_now_frame:
  "sessions (snd (Date_now w)) = sessions w"
  "pendingPermission (snd (Date_now w)) = pendingPermission w"
  "sockets (snd (Date_now w)) = sockets w"
  "thinkingIds (snd (Date_now w)) = thinkingIds w"
  "streamingIds (snd (Date_now w)) = streamingIds w"
  "heap (snd (Date_now w)) = heap w"
  "nextSocket (snd (Date_now w)) = nextSocket w"
  by (simp_all add: Date_now_def)

lemma world_connected_sockets: "sockets world_connected ''s1'' = Some 0"
  by (simp add: example_defs handler_defs state_defs socket_defs handleMessage_def)

lemma world_connected_readyState: "readyState (heap world_connected 0) = OPEN"
  by (simp add: example_defs handler_defs state_defs socket_defs handleMessage_def)

lemma world_connected_outbox: "outbox (heap world_connected 0) = [ConnectCmd, NewSessionCmd]"
  by (simp add: example_defs handler_defs state_defs socket_defs handleMessage_def)

lemma world_two_requests_pending: "pendingPermission world_two_requests = Some (request2, 0)"
  by (simp add: world_two_requests_def eval_defs)

lemma world_two_requests_readyState: "readyState (heap world_two_requests 0) = OPEN"
  by (simp add: world_two_requests_def eval_defs)

lemma world_two_requests_not_connecting:
  "readyState (heap world_two_requests 0) \<noteq> CONNECTING"
  using world_two_requests_readyState by (simp add: OPEN_def CONNECTING_def)


section \<open>\<^verbatim>\<open>send\<close>\<close>

lemma send_cases:
  "send localId frame w =
     (Inr (isOpen localId w),
      if isOpen localId w
      then w\<lparr>heap := (heap w)(the (sockets w localId) :=
               (heap w (the (sockets w localId)))
                 \<lparr>outbox := outbox (heap w (the (sockets w localId))) @ [frame]\<rparr>)\<rparr>
      else w)"
  by (simp add: send_def isOpen_def ws_send_def OPEN_def CONNECTING_def Let_def
      split: option.splits)

text \<open>
  C5. \<^verbatim>\<open>send(sessionId, command)\<close> never raises. It returns true exactly when the
  manager holds a socket for the session and that socket is open, and then the frame is
  appended to that socket's outbox and nothing else changes. When it returns false the
  whole state is what it was: nothing is mutated and the command is stored nowhere.
\<close>

theorem send_true_iff_open:
  "fst (send localId frame w) = Inr (isOpen localId w)
   \<and> isOpen localId w = (\<exists>ws. sockets w localId = Some ws \<and> readyState (heap w ws) = OPEN)
   \<and> (\<not> isOpen localId w \<longrightarrow> snd (send localId frame w) = w)
   \<and> (\<forall>ws. isOpen localId w \<and> sockets w localId = Some ws \<longrightarrow>
         snd (send localId frame w) =
           w\<lparr>heap := (heap w)(ws := (heap w ws)\<lparr>outbox := outbox (heap w ws) @ [frame]\<rparr>)\<rparr>)"
  by (auto simp add: send_cases isOpen_def split: option.splits)

theorem send_true_iff_open_witness:
  "isOpen ''s1'' world_connected
   \<and> fst (send ''s1'' CancelCmd world_connected) = Inr True
   \<and> outbox (heap (snd (send ''s1'' CancelCmd world_connected)) 0)
       = [ConnectCmd, NewSessionCmd, CancelCmd]
   \<and> \<not> isOpen ''s1'' world0
   \<and> fst (send ''s1'' CancelCmd world0) = Inr False
   \<and> snd (send ''s1'' CancelCmd world0) = world0"
  using send_true_iff_open [of "''s1''" CancelCmd world_connected]
        send_true_iff_open [of "''s1''" CancelCmd world0]
        world_connected_sockets world_connected_readyState world_connected_outbox
  by (simp add: isOpen_def world0_def)

section \<open>\<^verbatim>\<open>connect\<close>\<close>

text \<open>
  C6. \<^verbatim>\<open>connect(session)\<close> on a session whose socket is connecting or open returns at
  once: no socket is created, the socket map is the same and no session's status is
  touched (the state is the one before the call), and nothing is raised.
\<close>

theorem connect_live_noop:
  assumes "sockets w (id_session session) = Some ws"
      and "readyState (heap w ws) = CONNECTING \<or> readyState (heap w ws) = OPEN"
  shows "connect session w = (Inr (), w)"
  using assms by (auto simp add: connect_def CONNECTING_def OPEN_def)

theorem connect_live_noop_witness:
  "sockets world_connected (id_session session0) = Some 0
   \<and> readyState (heap world_connected 0) = OPEN
   \<and> connect session0 world_connected = (Inr (), world_connected)"
proof -
  have a: "sockets world_connected (id_session session0) = Some 0"
    using world_connected_sockets by (simp add: session0_def)
  have b: "readyState (heap world_connected 0) = CONNECTING
           \<or> readyState (heap world_connected 0) = OPEN"
    using world_connected_readyState by simp
  show ?thesis
    using connect_live_noop [OF a b] a world_connected_readyState by simp
qed

section \<open>Inbound \<^verbatim>\<open>error\<close> frames\<close>

text \<open>
  C8. Handling an inbound \<^verbatim>\<open>error\<close> frame with payload \<^verbatim>\<open>{message}\<close> raises nothing and
  appends exactly one message to the session the socket belongs to: a system-role message
  whose content is \<^verbatim>\<open>Error: \<close> followed by the payload's text. Every session keeps its
  status and its remote session id, the messages it had stay as they were and in place,
  other sessions are not touched, and neither are the displayed permission request, the
  socket map, the sockets and the thinking and streaming handles.
\<close>

theorem error_frame_appends_system_message:
  "let w' = snd (handleMessage localId (ErrorFrame message) ws w);
       m = \<lparr>id_msg = fst (makeId w), role = System, content = ''Error: '' @ message,
            timestamp = fst (Date_now (snd (makeId w))), toolCall = None,
            toolResult = None, isThinking = None, stopReason = None\<rparr>
   in fst (handleMessage localId (ErrorFrame message) ws w) = Inr ()
      \<and> sessions w' =
          map (\<lambda>s. if id_session s = localId then s\<lparr>messages := messages s @ [m]\<rparr> else s)
            (sessions w)
      \<and> map status (sessions w') = map status (sessions w)
      \<and> map sessionId (sessions w') = map sessionId (sessions w)
      \<and> pendingPermission w' = pendingPermission w
      \<and> sockets w' = sockets w \<and> heap w' = heap w
      \<and> thinkingIds w' = thinkingIds w \<and> streamingIds w' = streamingIds w"
  by (simp add: handleMessage_def addMessage_def makeId_frame Date_now_frame split_beta Let_def comp_def)

theorem error_frame_appends_system_message_witness:
  "map (\<lambda>s. (status s, sessionId s, map (\<lambda>m. (role m, content m)) (messages s)))
     (sessions (snd (handleMessage ''s1'' (ErrorFrame ''boom'') 0 world_connected)))
   = [(Connected, None, [(System, ''Error: boom'')])]"
  using error_frame_appends_system_message [of "''s1''" "''boom''" 0 world_connected]
  by (simp add: eval_defs)

section \<open>Resolving a permission request\<close>

lemma handlePermissionAllow_cases:
  assumes "pendingPermission w = Some (request, ws)"
  shows "handlePermissionAllow w =
     (if readyState (heap w ws) = CONNECTING then (Inl InvalidStateError, w)
      else (Inr (),
            w\<lparr>heap := (if readyState (heap w ws) = OPEN
                        then (heap w)(ws := (heap w ws)\<lparr>outbox := outbox (heap w ws)
                               @ [PermissionResponseCmd (requestId request) Allow]\<rparr>)
                        else heap w),
              sessions := map (\<lambda>s. s\<lparr>messages := map (allowMessage request) (messages s)\<rparr>) (sessions w),
              pendingPermission := None\<rparr>))"
  using assms by (simp add: handlePermissionAllow_def ws_send_def Let_def)

lemma handlePermissionDeny_cases:
  assumes "pendingPermission w = Some (request, ws)"
  shows "handlePermissionDeny w =
     (if readyState (heap w ws) = CONNECTING then (Inl InvalidStateError, w)
      else (Inr (),
            w\<lparr>heap := (if readyState (heap w ws) = OPEN
                        then (heap w)(ws := (heap w ws)\<lparr>outbox := outbox (heap w ws)
                               @ [PermissionResponseCmd (requestId request) Deny]\<rparr>)
                        else heap w),
              sessions := map (\<lambda>s. s\<lparr>messages := map denyMessage (messages s)\<rparr>) (sessions w),
              pendingPermission := None\<rparr>))"
  using assms by (simp add: handlePermissionDeny_def ws_send_def Let_def)






lemma world_untitled_request_pending:
  "pendingPermission world_untitled_request = Some (request3, 0)"
  by (simp add: world_untitled_request_def eval_defs)




text \<open>
  C9. When the displayed request is resolved (and the send does not raise, which it only
  does on a socket still connecting), then in every session, at every position of its
  message list, a message that was pending is denied after a deny; and after an allow it is
  allowed if its tool-call title equals the title of the displayed request's tool call.
  The session that the request came from and the request's id play no part.
\<close>

theorem resolution_updates_every_pending_message:
  assumes "pendingPermission w = Some (request, ws)"
      and "readyState (heap w ws) \<noteq> CONNECTING"
  shows "length (sessions (snd (handlePermissionDeny w))) = length (sessions w)
     \<and> length (sessions (snd (handlePermissionAllow w))) = length (sessions w)
     \<and> (\<forall>i<length (sessions w).
          length (messages (sessions (snd (handlePermissionDeny w)) ! i))
            = length (messages (sessions w ! i))
          \<and> length (messages (sessions (snd (handlePermissionAllow w)) ! i))
            = length (messages (sessions w ! i))
          \<and> (\<forall>j<length (messages (sessions w ! i)).
               map_option tr_status (toolResult (messages (sessions w ! i) ! j)) = Some Pending
               \<longrightarrow> map_option tr_status
                     (toolResult (messages (sessions (snd (handlePermissionDeny w)) ! i) ! j))
                     = Some Denied
                   \<and> (map_option tc_title (toolCall (messages (sessions w ! i) ! j))
                        = map_option title (pr_toolCall request)
                      \<longrightarrow> map_option tr_status
                            (toolResult (messages (sessions (snd (handlePermissionAllow w)) ! i) ! j))
                            = Some Allowed)))"
  using assms
  by (auto simp add: handlePermissionAllow_cases handlePermissionDeny_cases
      allowMessage_def denyMessage_def)

theorem resolution_updates_every_pending_message_witness:
  "pendingPermission world_two_requests = Some (request2, 0)
   \<and> readyState (heap world_two_requests 0) \<noteq> CONNECTING
   \<and> map_option tr_status (toolResult (messages (sessions world_two_requests ! 0) ! 0))
       = Some Pending
   \<and> map_option tr_status
        (toolResult (messages (sessions (snd (handlePermissionDeny world_two_requests)) ! 0) ! 0))
       = Some Denied
   \<and> map_option tc_title (toolCall (messages (sessions world_two_requests ! 0) ! 1))
       = map_option title (pr_toolCall request2)
   \<and> map_option tr_status
        (toolResult (messages (sessions (snd (handlePermissionAllow world_two_requests)) ! 0) ! 1))
       = Some Allowed"
proof -
  have msgs: "\<exists>s m1 m2. sessions world_two_requests = [s] \<and> messages s = [m1, m2]
      \<and> map_option tr_status (toolResult m1) = Some Pending
      \<and> map_option tr_status (toolResult m2) = Some Pending
      \<and> map_option tc_title (toolCall m2) = Some ''Write file''"
    by (simp add: world_two_requests_def eval_defs request1_def request2_def)
  then obtain s m1 m2 where s: "sessions world_two_requests = [s]" "messages s = [m1, m2]"
      "map_option tr_status (toolResult m1) = Some Pending"
      "map_option tr_status (toolResult m2) = Some Pending"
      "map_option tc_title (toolCall m2) = Some ''Write file''"
    by blast
  note th = resolution_updates_every_pending_message
              [OF world_two_requests_pending world_two_requests_not_connecting]
  from th have "\<forall>j<length (messages (sessions world_two_requests ! 0)).
               map_option tr_status (toolResult (messages (sessions world_two_requests ! 0) ! j)) = Some Pending
               \<longrightarrow> map_option tr_status
                     (toolResult (messages (sessions (snd (handlePermissionDeny world_two_requests)) ! 0) ! j))
                     = Some Denied
                   \<and> (map_option tc_title (toolCall (messages (sessions world_two_requests ! 0) ! j))
                        = map_option title (pr_toolCall request2)
                      \<longrightarrow> map_option tr_status
                            (toolResult (messages (sessions (snd (handlePermissionAllow world_two_requests)) ! 0) ! j))
                            = Some Allowed)"
    using s by simp
  then have "map_option tr_status
        (toolResult (messages (sessions (snd (handlePermissionDeny world_two_requests)) ! 0) ! 0))
       = Some Denied" and "map_option tr_status
        (toolResult (messages (sessions (snd (handlePermissionAllow world_two_requests)) ! 0) ! 1))
       = Some Allowed"
    using s by (auto simp add: request2_def)
  then show ?thesis
    using s world_two_requests_pending world_two_requests_not_connecting
    by (simp add: request2_def)
qed

section \<open>A second permission request\<close>

text \<open>
  C10. The displayed request is a single slot. A \<^verbatim>\<open>permission_request\<close> frame that arrives
  while a request is displayed puts the new request and its socket in the slot; no socket's
  outbox changes, so nothing is answered for the replaced request, whose tool message stays
  in the list with the new one appended. A resolution that follows answers for the new
  request only: the one frame it can add is a \<^verbatim>\<open>permission_response\<close> with the new
  request's id on the new request's socket, and it empties the slot (or, on a socket still
  connecting, raises and leaves the new request displayed).
\<close>

theorem permission_request_replaces_displayed:
  assumes "pendingPermission w = Some (old, ws0)"
  shows "let w' = snd (handleMessage localId (PermissionRequestFrame p) ws w);
             m = \<lparr>id_msg = fst (makeId w), role = Tool,
                  content = title_or (pr_toolCall p) ''Tool call'',
                  timestamp = fst (Date_now (snd (makeId w))),
                  toolCall = Some \<lparr>tc_title = title_or (pr_toolCall p) ''Permission Required'',
                                   tc_input = Option.bind (pr_toolCall p) input\<rparr>,
                  toolResult = Some \<lparr>tr_status = Pending, tr_output = None\<rparr>,
                  isThinking = None, stopReason = None\<rparr>
     in pendingPermission w' = Some (p, ws)
     \<and> heap w' = heap w
     \<and> sessions w' =
         map (\<lambda>s. if id_session s = localId then s\<lparr>messages := messages s @ [m]\<rparr> else s)
           (sessions w)
     \<and> heap (snd (handlePermissionAllow w')) =
         (if readyState (heap w ws) = OPEN
          then (heap w)(ws := (heap w ws)\<lparr>outbox := outbox (heap w ws)
                  @ [PermissionResponseCmd (requestId p) Allow]\<rparr>)
          else heap w)
     \<and> heap (snd (handlePermissionDeny w')) =
         (if readyState (heap w ws) = OPEN
          then (heap w)(ws := (heap w ws)\<lparr>outbox := outbox (heap w ws)
                  @ [PermissionResponseCmd (requestId p) Deny]\<rparr>)
          else heap w)
     \<and> pendingPermission (snd (handlePermissionAllow w'))
         = (if readyState (heap w ws) = CONNECTING then Some (p, ws) else None)
     \<and> pendingPermission (snd (handlePermissionDeny w'))
         = (if readyState (heap w ws) = CONNECTING then Some (p, ws) else None)"
proof -
  define w' where "w' = snd (handleMessage localId (PermissionRequestFrame p) ws w)"
  have pend: "pendingPermission w' = Some (p, ws)"
    by (simp add: w'_def handleMessage_def addMessage_def showPermission_def makeId_frame
        Date_now_frame split_beta Let_def)
  have hp: "heap w' = heap w"
    by (simp add: w'_def handleMessage_def addMessage_def showPermission_def makeId_frame
        Date_now_frame split_beta Let_def)
  have msgs: "sessions w' =
         map (\<lambda>s. if id_session s = localId
                   then s\<lparr>messages := messages s @
                     [\<lparr>id_msg = fst (makeId w), role = Tool,
                  content = title_or (pr_toolCall p) ''Tool call'',
                  timestamp = fst (Date_now (snd (makeId w))),
                  toolCall = Some \<lparr>tc_title = title_or (pr_toolCall p) ''Permission Required'',
                                   tc_input = Option.bind (pr_toolCall p) input\<rparr>,
                  toolResult = Some \<lparr>tr_status = Pending, tr_output = None\<rparr>,
                  isThinking = None, stopReason = None\<rparr>]\<rparr> else s)
           (sessions w)"
    unfolding w'_def handleMessage_def addMessage_def showPermission_def
    by (simp add: split_beta Let_def makeId_def Date_now_def)
  show ?thesis
    unfolding Let_def w'_def [symmetric]
    using pend hp msgs
    by (simp add: handlePermissionAllow_cases [OF pend] handlePermissionDeny_cases [OF pend]
        OPEN_def CONNECTING_def)
qed

theorem permission_request_replaces_displayed_witness:
  "pendingPermission (run world_connected [WsMessage 0 (Some (PermissionRequestFrame request1))])
     = Some (request1, 0)
   \<and> pendingPermission world_two_requests = Some (request2, 0)
   \<and> outbox (heap world_two_requests 0) = [ConnectCmd, NewSessionCmd]
   \<and> outbox (heap (snd (handlePermissionAllow world_two_requests)) 0)
       = [ConnectCmd, NewSessionCmd, PermissionResponseCmd ''r2'' Allow]
   \<and> pendingPermission (snd (handlePermissionAllow world_two_requests)) = None"
proof -
  define w1 where "w1 = run world_connected [WsMessage 0 (Some (PermissionRequestFrame request1))]"
  have p1: "pendingPermission w1 = Some (request1, 0)"
    by (simp add: w1_def eval_defs)
  have own: "ws_owner (heap w1 0) = ''s1''"
    by (simp add: w1_def eval_defs)
  have w2: "world_two_requests = snd (handleMessage ''s1'' (PermissionRequestFrame request2) 0 w1)"
    using own by (simp add: world_two_requests_def w1_def run_def ws_onmessage_def)
  have rs: "readyState (heap w1 0) = OPEN" and ob: "outbox (heap w1 0) = [ConnectCmd, NewSessionCmd]"
    by (simp_all add: w1_def eval_defs)
  show ?thesis
    using permission_request_replaces_displayed [OF p1, of "''s1''" request2 0] p1 rs ob
    unfolding Let_def w2 [symmetric] w1_def [symmetric]
    by (simp add: OPEN_def CONNECTING_def request2_def)
qed

section \<open>The stream aggregator\<close>




lemma appendTo_id [simp]: "id_session (appendTo i d s) = id_session s"
  by (simp add: appendTo_def)






lemma setSession_maps [simp]:
  "thinkingIds (setSession i f w) = thinkingIds w"
  "streamingIds (setSession i f w) = streamingIds w"
  "heap (setSession i f w) = heap w"
  by (simp_all add: setSession_def)




lemma heap_removeThinking [simp]: "heap (removeThinking localId w) = heap w"
  by (simp add: removeThinking_def Let_def)

lemma heap_handleUpdate [simp]: "heap (handleUpdate localId u w) = heap w"
  by (simp add: handleUpdate_def Let_def split_beta addMessage_def makeId_def Date_now_def)

lemma heap_handleUpdates [simp]: "heap (handleUpdates localId us w) = heap w"
  by (induction us arbitrary: w) simp_all






lemmas agg_defs = handleUpdate_def removeThinking_def delta_of_def text_delta_def thinking_start_def

lemma world_connected_sessions: "sessions world_connected = [session0\<lparr>status := Connected\<rparr>]"
  by (simp add: eval_defs)

lemma world_connected_idle:
  "thinkingIds world_connected ''s1'' = None" "streamingIds world_connected ''s1'' = None"
  by (simp_all add: eval_defs)



lemma world_connected_makeId: "fst (makeId world_connected) = ''rsabcde''"
  by (simp add: eval_defs toString36.simps digit36_def)


lemma world_reloaded_sessions:
  "sessions world_reloaded = [stored_session]"
  by (simp add: world_reloaded_def stored_session_def loadSessions_def eval_defs)

lemma world_reloaded_idle:
  "thinkingIds world_reloaded ''s1'' = None" "streamingIds world_reloaded ''s1'' = None"
  by (simp_all add: world_reloaded_def stored_session_def loadSessions_def eval_defs)

text \<open>
  A turn that starts with a thinking signal: the first delta takes the registered
  placeholder out of the list before the assistant message is created.
\<close>

lemma thinking_then_deltas:
  "map (\<lambda>s. map (\<lambda>m. (role m, content m, isThinking m)) (messages s))
     (sessions (run world_connected
        [WsMessage 0 (Some (SessionUpdateFrame (Some [thinking_start])))]))
   = [[(Assistant, [], Some True)]]
   \<and> map (\<lambda>s. map (\<lambda>m. (role m, content m, isThinking m)) (messages s))
     (sessions (run world_connected
        [WsMessage 0 (Some (SessionUpdateFrame
           (Some [thinking_start, text_delta ''Hel'', text_delta ''lo'']))),
         WsMessage 0 (Some PromptCompleteFrame)]))
   = [[(Assistant, ''Hello'', None)]]"
  by (simp add: eval_defs agg_defs toString36.simps digit36_def)




text \<open>
  C4, as the claim states it, fails for the streaming state: after a first text delta a
  streaming id is registered and no thinking id, and a \<^verbatim>\<open>thinking_start\<close> update then
  appends a placeholder to the message list.
\<close>

theorem thinking_start_while_streaming_adds_placeholder:
  "thinkingIds world_streaming ''s1'' = None
   \<and> streamingIds world_streaming ''s1'' = Some ''rsabcde''
   \<and> map (\<lambda>s. map (\<lambda>m. (content m, isThinking m)) (messages s)) (sessions world_streaming)
       = [[(''Hel'', None)]]
   \<and> map (\<lambda>s. map (\<lambda>m. (content m, isThinking m)) (messages s))
       (sessions (handleUpdates ''s1'' [thinking_start] world_streaming))
       = [[(''Hel'', None), ([], Some True)]]"
  by (simp add: world_streaming_def eval_defs agg_defs toString36.simps digit36_def)


text \<open>
  C4, amended. A \<^verbatim>\<open>thinking_start\<close> update received while a thinking id is registered
  for the session is a no-op: the state is the same. Two consecutive \<^verbatim>\<open>thinking_start\<close>
  updates do what one does, from every state. While no thinking id is registered (the
  aggregator idle, or streaming) the two together append exactly one placeholder message
  (an assistant message with empty content and \<^verbatim>\<open>isThinking = true\<close>) to the session and
  register its id, and leave the streaming ids as they are.
\<close>

theorem thinking_start_idempotent:
  assumes "utype u = ''thinking_start''" "utype v = ''thinking_start''"
  shows "(thinkingIds w localId \<noteq> None \<longrightarrow> handleUpdates localId [u] w = w)
     \<and> handleUpdates localId [u, v] w = handleUpdates localId [u] w
     \<and> (thinkingIds w localId = None \<longrightarrow>
          (let w' = handleUpdates localId [u, v] w;
               m = \<lparr>id_msg = fst (makeId w), role = Assistant, content = [],
                    timestamp = fst (Date_now (snd (makeId w))), toolCall = None,
                    toolResult = None, isThinking = Some True, stopReason = None\<rparr>
           in sessions w' =
                map (\<lambda>s. if id_session s = localId then s\<lparr>messages := messages s @ [m]\<rparr> else s)
                  (sessions w)
              \<and> thinkingIds w' = (thinkingIds w)(localId \<mapsto> fst (makeId w))
              \<and> streamingIds w' = streamingIds w))"
  using assms
  by (auto simp add: handleUpdate_def Let_def split_beta addMessage_def makeId_def Date_now_def)

theorem thinking_start_idempotent_witness:
  "map (\<lambda>s. map (\<lambda>m. (content m, isThinking m)) (messages s))
       (sessions (handleUpdates ''s1'' [thinking_start, thinking_start] world_connected))
     = [[([], Some True)]]
   \<and> thinkingIds (handleUpdates ''s1'' [thinking_start] world_connected) ''s1'' = Some ''rsabcde''
   \<and> handleUpdates ''s1'' [thinking_start] (handleUpdates ''s1'' [thinking_start] world_connected)
       = handleUpdates ''s1'' [thinking_start] world_connected"
proof -
  have ts: "utype thinking_start = ''thinking_start''" by (simp add: thinking_start_def)
  note th = thinking_start_idempotent [OF ts ts, of world_connected "''s1''"]
  have a: "handleUpdates ''s1'' [thinking_start, thinking_start] world_connected
           = handleUpdates ''s1'' [thinking_start] world_connected"
    using th by (rule_tac conjunct1 [OF conjunct2])
  from th world_connected_idle(1)
  have l: "let w' = handleUpdates ''s1'' [thinking_start, thinking_start] world_connected;
               m = \<lparr>id_msg = fst (makeId world_connected), role = Assistant, content = [],
                    timestamp = fst (Date_now (snd (makeId world_connected))), toolCall = None,
                    toolResult = None, isThinking = Some True, stopReason = None\<rparr>
           in sessions w' =
                map (\<lambda>s. if id_session s = ''s1'' then s\<lparr>messages := messages s @ [m]\<rparr> else s)
                  (sessions world_connected)
              \<and> thinkingIds w' = (thinkingIds world_connected)(''s1'' \<mapsto> fst (makeId world_connected))
              \<and> streamingIds w' = streamingIds world_connected"
    by blast
  note l' = l [unfolded Let_def a world_connected_makeId world_connected_sessions]
  have b: "thinkingIds (handleUpdates ''s1'' [thinking_start] world_connected) ''s1''
           = Some ''rsabcde''"
    unfolding conjunct1 [OF conjunct2 [OF l']] by simp
  then have "thinkingIds (handleUpdates ''s1'' [thinking_start] world_connected) ''s1'' \<noteq> None"
    by simp
  then have c: "handleUpdates ''s1'' [thinking_start]
                  (handleUpdates ''s1'' [thinking_start] world_connected)
                = handleUpdates ''s1'' [thinking_start] world_connected"
    using thinking_start_idempotent
            [OF ts ts, of "handleUpdates ''s1'' [thinking_start] world_connected" "''s1''"]
    by blast
  have d: "map (\<lambda>s. map (\<lambda>m. (content m, isThinking m)) (messages s))
             (sessions (handleUpdates ''s1'' [thinking_start] world_connected))
           = [[([], Some True)]]"
    unfolding conjunct1 [OF l'] by (simp add: session0_def)
  show ?thesis
    unfolding a using b c d by blast
qed

section \<open>Connection status and the remote session id\<close>

text \<open>
  Every event keeps \<open>wf\<close>: \<^verbatim>\<open>connect\<close> is the only writer of the socket map, and it
  files the new socket under the session id that the socket's handlers close over. So in
  every state reached from one without sockets, the handlers of the socket filed under a
  session act on that session.
\<close>

lemma same_sockets_refl [simp]: "same_sockets w w"
  by (simp add: same_sockets_def)

lemma same_sockets_trans: "same_sockets w w1 \<Longrightarrow> same_sockets w1 w2 \<Longrightarrow> same_sockets w w2"
  by (simp add: same_sockets_def)

lemma wf_same_sockets: "wf w \<Longrightarrow> same_sockets w w' \<Longrightarrow> wf w'"
  by (simp add: wf_def same_sockets_def)

lemma same_setSession [simp]: "same_sockets w (setSession i f w)"
  by (simp add: same_sockets_def setSession_def)

lemma same_addMessage [simp]: "same_sockets w (addMessage i m w)"
  by (simp add: same_sockets_def addMessage_def)

lemma same_ws_send [simp]: "same_sockets w (snd (ws_send ws f w))"
  by (simp add: same_sockets_def ws_send_def Let_def)

lemma same_ws_close [simp]: "same_sockets w (ws_close ws w)"
  by (simp add: same_sockets_def ws_close_def Let_def)

lemma same_set_readyState [simp]: "same_sockets w (set_readyState ws r w)"
  by (simp add: same_sockets_def set_readyState_def)

lemma same_removeThinking [simp]: "same_sockets w (removeThinking i w)"
  by (simp add: same_sockets_def removeThinking_def setSession_def Let_def)

lemma same_handleUpdate [simp]: "same_sockets w (handleUpdate i u w)"
  by (simp add: same_sockets_def handleUpdate_def removeThinking_def setSession_def addMessage_def
      makeId_def Date_now_def Let_def split_beta)

lemma same_handleUpdates [simp]: "same_sockets w (handleUpdates i us w)"
proof (induction us arbitrary: w)
  case Nil
  show ?case by simp
next
  case (Cons u us)
  show ?case
    using same_sockets_trans [OF same_handleUpdate Cons.IH] by simp
qed

lemma same_handleMessage [simp]: "same_sockets w (snd (handleMessage i msg ws w))"
proof (cases msg)
  case (SessionUpdateFrame ups)
  then show ?thesis by (simp add: handleMessage_def)
next
  case (StatusFrame c info)
  then show ?thesis
    using same_sockets_trans [OF same_setSession same_ws_send]
    by (simp add: handleMessage_def)
qed (simp_all add: same_sockets_def handleMessage_def removeThinking_def setSession_def
      addMessage_def showPermission_def makeId_def Date_now_def Let_def split_beta)

lemma same_handlePermissionAllow [simp]: "same_sockets w (snd (handlePermissionAllow w))"
  by (simp add: same_sockets_def handlePermissionAllow_def ws_send_def Let_def
      split: option.splits prod.splits)

lemma same_handlePermissionDeny [simp]: "same_sockets w (snd (handlePermissionDeny w))"
  by (simp add: same_sockets_def handlePermissionDeny_def ws_send_def Let_def
      split: option.splits prod.splits)

lemma same_disconnect [simp]: "same_sockets w (disconnect i w)"
  using same_sockets_trans [OF same_ws_send same_ws_close]
  by (simp add: disconnect_def split: option.splits)

lemma wf_connect: "wf w \<Longrightarrow> wf (snd (connect session w))"
  by (auto simp add: wf_def connect_def new_WebSocket_def setSession_def Let_def
      split: option.splits if_splits intro: less_SucI)

lemma wf_onclose: "wf w \<Longrightarrow> wf (ws_onclose ws w)"
  by (simp add: wf_def ws_onclose_def setSession_def Let_def)

lemma wf_step: "wf w \<Longrightarrow> wf (step w e)"
proof (cases e)
  case (WsOpen ws)
  assume "wf w"
  then show ?thesis
    using same_sockets_trans [OF same_set_readyState same_ws_send] WsOpen
    by (simp add: ws_onopen_def wf_same_sockets)
next
  case (WsError ws)
  assume "wf w"
  then show ?thesis
    using same_sockets_trans [OF same_set_readyState same_setSession] WsError
    by (simp add: ws_onerror_def wf_same_sockets)
next
  case (WsClose ws)
  assume "wf w"
  then have "wf (set_readyState ws CLOSED w)" by (rule wf_same_sockets) simp
  then show ?thesis using WsClose by (simp add: wf_onclose)
next
  case (WsMessage ws raw)
  assume "wf w"
  then show ?thesis using WsMessage
    by (cases raw) (simp_all add: ws_onmessage_def wf_same_sockets)
next
  case (ClickConnect i)
  assume "wf w"
  then show ?thesis using ClickConnect
    by (simp add: handleConnect_def wf_connect split: option.splits)
next
  case (ClickDisconnect i)
  assume "wf w"
  then show ?thesis using ClickDisconnect
    by (simp add: handleDisconnect_def wf_same_sockets)
next
  case ClickAllow
  assume "wf w"
  then show ?thesis using ClickAllow by (simp add: wf_same_sockets)
next
  case ClickDeny
  assume "wf w"
  then show ?thesis using ClickDeny by (simp add: wf_same_sockets)
qed

lemma wf_run: "wf w \<Longrightarrow> wf (run w evs)"
  unfolding run_def by (induction evs arbitrary: w) (simp_all add: wf_step)

lemma wf_world0: "wf world0"
  by (simp add: wf_def world0_def)

lemma sessions_setSession:
  "sessions (setSession i f w) = map (\<lambda>s. if id_session s = i then f s else s) (sessions w)"
  by (simp add: setSession_def)

lemma Ball_setSession:
  assumes "\<And>s. P (f s)"
  shows "\<forall>s\<in>set (sessions (setSession i f w)). id_session s = i \<longrightarrow> P s"
proof (intro ballI impI)
  fix s
  assume s: "s \<in> set (sessions (setSession i f w))" and i: "id_session s = i"
  from s obtain s0 where eq: "s = (if id_session s0 = i then f s0 else s0)"
    unfolding sessions_setSession by (auto simp only: set_map)
  show "P s"
  proof (cases "id_session s0 = i")
    case True
    then have "s = f s0" using eq by simp
    then show ?thesis using assms by simp
  next
    case False
    then have "s = s0" using eq by simp
    then show ?thesis using False i by simp
  qed
qed

lemma disconnect_live:
  assumes "sockets w localId = Some ws"
      and "readyState (heap w ws) = CONNECTING \<or> readyState (heap w ws) = OPEN"
  shows "disconnect localId w =
           w\<lparr>heap := (heap w)(ws := (heap w ws)
                \<lparr>outbox := (if readyState (heap w ws) = OPEN
                             then outbox (heap w ws) @ [DisconnectCmd] else outbox (heap w ws)),
                 readyState := CLOSING\<rparr>)\<rparr>"
  using assms
  by (auto simp add: disconnect_def ws_send_def ws_close_def Let_def
      CONNECTING_def OPEN_def CLOSING_def)

lemma step_WsClose:
  "step w (WsClose ws) =
     setSession (ws_owner (heap w ws)) (\<lambda>s. s\<lparr>status := Disconnected, sessionId := None\<rparr>)
       (w\<lparr>heap := (heap w)(ws := (heap w ws)\<lparr>readyState := CLOSED\<rparr>),
          sockets := (sockets w)(ws_owner (heap w ws) := None)\<rparr>)"
  by (simp add: ws_onclose_def set_readyState_def Let_def)

lemma world_session_created_socket:
  "sockets world_session_created ''s1'' = Some 0"
  "ws_owner (heap world_session_created 0) = ''s1''"
  "readyState (heap world_session_created 0) = OPEN"
  "outbox (heap world_session_created 0) = [ConnectCmd, NewSessionCmd]"
  by (simp_all add: world_session_created_def eval_defs)

lemma world_session_created_sessions:
  "sessions world_session_created = [session0\<lparr>status := Connected, sessionId := Some ''srv-1''\<rparr>]"
  by (simp add: world_session_created_def eval_defs)

text \<open>
  C3, as the claim states it, fails. With the session connected and its remote session id
  recorded, the error handler sets the status to \<^verbatim>\<open>error\<close> and the id stays; and when the
  user disconnects and connects again before the old socket has closed, \<^verbatim>\<open>connect\<close> sets
  the status to \<^verbatim>\<open>connecting\<close> and the id stays.
\<close>

theorem remote_id_survives_error_and_connecting:
  "map (\<lambda>s. (status s, sessionId s)) (sessions world_session_created)
     = [(Connected, Some ''srv-1'')]
   \<and> map (\<lambda>s. (status s, sessionId s)) (sessions (run world_session_created [WsError 0]))
     = [(Error, Some ''srv-1'')]
   \<and> map (\<lambda>s. (status s, sessionId s))
        (sessions (run world_session_created [ClickDisconnect ''s1'', ClickConnect ''s1'']))
     = [(Connecting, Some ''srv-1'')]"
  by (simp add: world_session_created_def eval_defs)

text \<open>
  C3, amended. The remote session id is cleared by each transition to \<^verbatim>\<open>disconnected\<close>
  that the close handler of a socket or a \<^verbatim>\<open>status\<close> frame with \<^verbatim>\<open>connected = false\<close>
  makes: afterwards every session the handler acts on is disconnected and has no remote
  session id. The error handler only sets the status to \<^verbatim>\<open>error\<close>; \<^verbatim>\<open>connect\<close> and a
  \<^verbatim>\<open>status\<close> frame with \<^verbatim>\<open>connected = true\<close> leave every remote session id as it was;
  and \<^verbatim>\<open>session_created\<close> records the id without reading the status.
\<close>

theorem remote_id_cleared_on_disconnected_only:
  "(\<forall>s\<in>set (sessions (ws_onclose ws w)).
       id_session s = ws_owner (heap w ws) \<longrightarrow> status s = Disconnected \<and> sessionId s = None)
   \<and> (\<forall>s\<in>set (sessions (snd (handleMessage localId (StatusFrame False info) ws w))).
       id_session s = localId \<longrightarrow> status s = Disconnected \<and> sessionId s = None)
   \<and> sessions (ws_onerror ws w)
       = map (\<lambda>s. if id_session s = ws_owner (heap w ws) then s\<lparr>status := Error\<rparr> else s)
           (sessions w)
   \<and> map sessionId (sessions (snd (connect session w))) = map sessionId (sessions w)
   \<and> map sessionId (sessions (snd (handleMessage localId (StatusFrame True info) ws w)))
       = map sessionId (sessions w)
   \<and> sessions (snd (handleMessage localId (SessionCreatedFrame sid) ws w))
       = map (\<lambda>s. if id_session s = localId then s\<lparr>sessionId := Some sid\<rparr> else s) (sessions w)"
proof -
  have 1: "\<forall>s\<in>set (sessions (ws_onclose ws w)).
       id_session s = ws_owner (heap w ws) \<longrightarrow> status s = Disconnected \<and> sessionId s = None"
    unfolding ws_onclose_def Let_def by (rule Ball_setSession) simp
  have "snd (handleMessage localId (StatusFrame False info) ws w)
        = setSession localId (\<lambda>s. s\<lparr>status := Disconnected, sessionId := None\<rparr>) w"
    by (simp add: handleMessage_def)
  then have 2: "\<forall>s\<in>set (sessions (snd (handleMessage localId (StatusFrame False info) ws w))).
       id_session s = localId \<longrightarrow> status s = Disconnected \<and> sessionId s = None"
    using Ball_setSession [of "\<lambda>s. status s = Disconnected \<and> sessionId s = None"
            "\<lambda>s. s\<lparr>status := Disconnected, sessionId := None\<rparr>" localId w]
    by simp
  have 3: "sessions (ws_onerror ws w)
       = map (\<lambda>s. if id_session s = ws_owner (heap w ws) then s\<lparr>status := Error\<rparr> else s)
           (sessions w)"
    by (simp add: ws_onerror_def setSession_def)
  have 4: "map sessionId (sessions (snd (connect session w))) = map sessionId (sessions w)"
    by (simp add: connect_def setSession_def new_WebSocket_def Let_def comp_def
        split: prod.splits sum.splits)
  have 5: "map sessionId (sessions (snd (handleMessage localId (StatusFrame True info) ws w)))
       = map sessionId (sessions w)"
    by (simp add: handleMessage_def setSession_def ws_send_def Let_def comp_def)
  have 6: "sessions (snd (handleMessage localId (SessionCreatedFrame sid) ws w))
       = map (\<lambda>s. if id_session s = localId then s\<lparr>sessionId := Some sid\<rparr> else s) (sessions w)"
    by (simp add: handleMessage_def setSession_def)
  show ?thesis using 1 2 3 4 5 6 by blast
qed

theorem remote_id_cleared_on_disconnected_only_witness:
  "map (\<lambda>s. (status s, sessionId s)) (sessions (ws_onclose 0 world_session_created))
     = [(Disconnected, None)]
   \<and> map (\<lambda>s. (status s, sessionId s))
       (sessions (snd (handleMessage ''s1'' (StatusFrame False None) 0 world_session_created)))
     = [(Disconnected, None)]
   \<and> map (\<lambda>s. (status s, sessionId s)) (sessions (ws_onerror 0 world_session_created))
     = [(Error, Some ''srv-1'')]"
proof -
  note th = remote_id_cleared_on_disconnected_only
              [of 0 world_session_created "''s1''" None session0 "''srv-2''"]
  have own: "ws_owner (heap world_session_created 0) = ''s1''"
    by (rule world_session_created_socket(2))
  have len1: "map id_session (sessions (ws_onclose 0 world_session_created)) = [''s1'']"
    by (simp add: ws_onclose_def setSession_def world_session_created_sessions own session0_def
        Let_def)
  have len2: "map id_session
                (sessions (snd (handleMessage ''s1'' (StatusFrame False None) 0 world_session_created)))
              = [''s1'']"
    by (simp add: handleMessage_def setSession_def world_session_created_sessions session0_def)
  from len1 obtain s1 where s1: "sessions (ws_onclose 0 world_session_created) = [s1]"
      "id_session s1 = ''s1''"
    by auto
  from len2 obtain s2 where s2:
      "sessions (snd (handleMessage ''s1'' (StatusFrame False None) 0 world_session_created)) = [s2]"
      "id_session s2 = ''s1''"
    by auto
  have a: "status s1 = Disconnected \<and> sessionId s1 = None"
    using conjunct1 [OF th] s1 own by simp
  have b: "status s2 = Disconnected \<and> sessionId s2 = None"
    using conjunct1 [OF conjunct2 [OF th]] s2 by simp
  have c: "map (\<lambda>s. (status s, sessionId s)) (sessions (ws_onerror 0 world_session_created))
     = [(Error, Some ''srv-1'')]"
    unfolding conjunct1 [OF conjunct2 [OF conjunct2 [OF th]]]
    by (simp add: world_session_created_sessions own session0_def)
  show ?thesis using a b c s1 s2 by simp
qed

section \<open>\<^verbatim>\<open>disconnect\<close>\<close>

text \<open>
  C7. In a state where every socket is filed under the session it was created for (as it
  is in every reachable state), let the manager hold a socket for the session, connecting
  or open. \<^verbatim>\<open>disconnect\<close> never raises: the
  shutdown frame reaches the outbox if the socket is open and is dropped, with the
  exception swallowed, if it is still connecting; either way the socket is closing
  afterwards, and sessions and socket map are as before. When the browser then delivers
  the close event of that socket, every session with that id is disconnected and has no
  remote session id, and the manager holds no socket for it.
\<close>

theorem disconnect_then_close:
  assumes "wf w"
      and "sockets w localId = Some ws"
      and "readyState (heap w ws) = CONNECTING \<or> readyState (heap w ws) = OPEN"
  shows "let w1 = disconnect localId w; w2 = step w1 (WsClose ws) in
     readyState (heap w1 ws) = CLOSING
     \<and> outbox (heap w1 ws) =
         (if readyState (heap w ws) = OPEN then outbox (heap w ws) @ [DisconnectCmd]
          else outbox (heap w ws))
     \<and> sessions w1 = sessions w
     \<and> sockets w1 = sockets w
     \<and> (\<forall>s\<in>set (sessions w2).
           id_session s = localId \<longrightarrow> status s = Disconnected \<and> sessionId s = None)
     \<and> sockets w2 localId = None"
proof -
  define w1 where "w1 = disconnect localId w"
  note d = disconnect_live [OF assms(2,3), folded w1_def]
  have "ws_owner (heap w ws) = localId"
    using assms(1,2) by (simp add: wf_def)
  then have own: "ws_owner (heap w1 ws) = localId"
    by (simp add: d)
  have a: "readyState (heap w1 ws) = CLOSING" by (simp add: d)
  have b: "outbox (heap w1 ws) =
         (if readyState (heap w ws) = OPEN then outbox (heap w ws) @ [DisconnectCmd]
          else outbox (heap w ws))" by (simp add: d)
  have c: "sessions w1 = sessions w" "sockets w1 = sockets w" by (simp_all add: d)
  have e: "\<forall>s\<in>set (sessions (step w1 (WsClose ws))).
           id_session s = localId \<longrightarrow> status s = Disconnected \<and> sessionId s = None"
    unfolding step_WsClose own by (rule Ball_setSession) simp
  have f: "sockets (step w1 (WsClose ws)) localId = None"
    unfolding step_WsClose own by (simp add: setSession_def)
  show ?thesis
    unfolding Let_def w1_def [symmetric] using a b c e f by blast
qed

theorem disconnect_then_close_witness:
  "wf world_session_created
   \<and> sockets world_session_created ''s1'' = Some 0
   \<and> readyState (heap world_session_created 0) = OPEN
   \<and> map (\<lambda>s. (status s, sessionId s)) (sessions world_session_created)
       = [(Connected, Some ''srv-1'')]
   \<and> outbox (heap (disconnect ''s1'' world_session_created) 0)
       = [ConnectCmd, NewSessionCmd, DisconnectCmd]
   \<and> readyState (heap (disconnect ''s1'' world_session_created) 0) = CLOSING
   \<and> map (\<lambda>s. (status s, sessionId s))
        (sessions (step (disconnect ''s1'' world_session_created) (WsClose 0)))
       = [(Disconnected, None)]
   \<and> sockets (step (disconnect ''s1'' world_session_created) (WsClose 0)) ''s1'' = None"
proof -
  have live: "readyState (heap world_session_created 0) = CONNECTING
              \<or> readyState (heap world_session_created 0) = OPEN"
    using world_session_created_socket(3) by simp
  have wf: "wf world_session_created"
    unfolding world_session_created_def world_connected_def
    by (intro wf_run wf_world0)
  note th = disconnect_then_close [OF wf world_session_created_socket(1) live, unfolded Let_def]
  have ids: "map id_session (sessions (step (disconnect ''s1'' world_session_created) (WsClose 0)))
             = [''s1'']"
    by (simp add: disconnect_live [OF world_session_created_socket(1) live] ws_onclose_def
        set_readyState_def Let_def world_session_created_socket setSession_def
        world_session_created_sessions session0_def)
  then obtain s where s: "sessions (step (disconnect ''s1'' world_session_created) (WsClose 0)) = [s]"
      "id_session s = ''s1''"
    by auto
  have a: "status s = Disconnected \<and> sessionId s = None"
    using th s by simp
  have b: "outbox (heap (disconnect ''s1'' world_session_created) 0)
       = [ConnectCmd, NewSessionCmd, DisconnectCmd]"
    using th world_session_created_socket(3,4) by simp
  show ?thesis
    using th a b s wf world_session_created_socket
    by (simp add: world_session_created_sessions session0_def)
qed

end
